theory Spec2Isabelle
  imports Complex_Main "HOL-Library.Sublist"
begin

section \<open>pygoban: the layout computations of \<open>GobanMaker\<close>\<close>

text \<open>
  A shallow embedding of \<^verbatim>\<open>pygoban.py\<close>. Python's unbounded \<^verbatim>\<open>int\<close> is \<open>int\<close>.
  Python's \<^verbatim>\<open>float\<close> is modelled by \<open>real\<close>: the arithmetic is the ideal one, rounding,
  overflow and NaN are outside the model. Exceptions are values of \<open>py_error\<close>.
\<close>

subsection \<open>Values and errors\<close>

datatype py_error =
    ValueError string
  | TypeError string
  | IndexError string
  | AttributeError string

text \<open>The dynamically typed arguments that the setters inspect with \<^verbatim>\<open>isinstance\<close>.\<close>

datatype pyval =
    PNone
  | PBool bool
  | PInt int
  | PFloat real
  | PStr string
  | PTuple "pyval list"
  | PList "pyval list"

text \<open>\<^verbatim>\<open>isinstance(v, int)\<close>: \<^verbatim>\<open>bool\<close> is a subclass of \<^verbatim>\<open>int\<close>.\<close>

fun is_int :: "pyval \<Rightarrow> bool" where
  "is_int (PInt _) = True"
| "is_int (PBool _) = True"
| "is_int _ = False"

text \<open>The integer value of an \<^verbatim>\<open>int\<close> instance (\<^verbatim>\<open>True\<close> is 1, \<^verbatim>\<open>False\<close> is 0).\<close>

fun int_value :: "pyval \<Rightarrow> int" where
  "int_value (PInt i) = i"
| "int_value (PBool b) = (if b then 1 else 0)"
| "int_value _ = 0"

fun is_float :: "pyval \<Rightarrow> bool" where
  "is_float (PFloat _) = True"
| "is_float _ = False"

fun float_value :: "pyval \<Rightarrow> real" where
  "float_value (PFloat x) = x"
| "float_value _ = 0"

subsection \<open>The object\<close>

text \<open>
  \<^verbatim>\<open>star_point_pos\<close> is the string \<^verbatim>\<open>"auto"\<close> or a list of grid coordinates. Grid
  coordinates are numbers: the automatic placement computes the middle lines with the
  true division \<^verbatim>\<open>/\<close>, so they are \<open>real\<close> here.
\<close>

datatype star_pos = Auto | Coords "(real \<times> real) list"

text \<open>
  The attributes of a \<^verbatim>\<open>GobanMaker\<close>. The two star point attributes are assigned
  only when the argument is not \<^verbatim>\<open>None\<close>, so they may be missing (\<open>None\<close>).
\<close>

record goban =
  board_size :: "int \<times> int"
  line_widths :: "real \<times> real"
  line_spacing :: "real \<times> real"
  border_spacing :: "real \<times> real"
  star_point_pos :: "star_pos option"
  star_point_diameter :: "real option"
  x_annotation :: "string option"
  y_annotation :: "string option"
  font_face :: string
  font_size :: real

subsection \<open>Board dimensions and automatic star points\<close>

definition get_board_dimensions :: "goban \<Rightarrow> real \<times> real" where
  "get_board_dimensions g =
     ( of_int (fst (board_size g) - 1) * fst (line_spacing g) + 2 * fst (border_spacing g),
       of_int (snd (board_size g) - 1) * snd (line_spacing g) + 2 * snd (border_spacing g) )"

definition get_auto_star_point_pos :: "goban \<Rightarrow> (real \<times> real) list" where
  "get_auto_star_point_pos g =
     (let cols = fst (board_size g); rows = snd (board_size g) in
      if cols \<ge> 3 \<and> rows \<ge> 3 then
        [ (3, 3),
          (3, of_int (rows - 2)),
          (of_int (cols - 2), 3),
          (of_int (cols - 2), of_int (rows - 2)) ]
        @ (if cols mod 2 \<noteq> 0 \<and> rows mod 2 \<noteq> 0
           then [ (of_int (cols - 1) / 2 + 1, of_int (rows - 1) / 2 + 1) ]
           else [])
        @ (if cols mod 2 \<noteq> 0
           then (let x_middle_pos = of_int (cols - 1) / 2 + 1 in
                 [ (x_middle_pos, 3),
                   (x_middle_pos, of_int (rows - 2)) ])
           else [])
        @ (if rows mod 2 \<noteq> 0
           then (let y_middle_pos = of_int (rows - 1) / 2 + 1 in
                 [ (3, y_middle_pos),
                   (of_int (rows - 2), y_middle_pos) ])
           else [])
      else [])"

subsection \<open>Setters\<close>

text \<open>
  A method of the object either returns, leaving the object in a new state, or raises,
  leaving the object in the state reached when the exception left the method.
\<close>

datatype outcome = Returned goban | Raised py_error goban

fun and_then :: "outcome \<Rightarrow> (goban \<Rightarrow> outcome) \<Rightarrow> outcome" where
  "and_then (Returned g) f = f g"
| "and_then (Raised e g) f = Raised e g"

definition set_board_size :: "goban \<Rightarrow> pyval \<Rightarrow> outcome" where
  "set_board_size g v =
     (if is_int v then Returned (g\<lparr>board_size := (int_value v, int_value v)\<rparr>)
      else (case v of
        PTuple xs \<Rightarrow>
          if length xs \<noteq> 2 then
            Raised (ValueError ''Board size must be two-dimensional.'') g
          else if \<not> is_int (xs ! 0) \<or> \<not> is_int (xs ! 1) then
            Raised (ValueError ''Parameter size must be a tuple of integers.'') g
          else Returned (g\<lparr>board_size := (int_value (xs ! 0), int_value (xs ! 1))\<rparr>)
      | _ \<Rightarrow> Raised (ValueError ''Parameter size may only be an int or a tuple.'') g))"

text \<open>
  \<^verbatim>\<open>min\<close> and \<^verbatim>\<open>max\<close> of a sequence of numbers: the first smallest and the first
  largest element, a \<^verbatim>\<open>ValueError\<close> on the empty sequence.
\<close>

fun py_min :: "real list \<Rightarrow> py_error + real" where
  "py_min [] = Inl (ValueError ''min() arg is an empty sequence'')"
| "py_min (x # xs) = Inr (foldl (\<lambda>m y. if y < m then y else m) x xs)"

fun py_max :: "real list \<Rightarrow> py_error + real" where
  "py_max [] = Inl (ValueError ''max() arg is an empty sequence'')"
| "py_max (x # xs) = Inr (foldl (\<lambda>m y. if y > m then y else m) x xs)"

text \<open>The argument is the sequence of widths, a tuple of floats by the docstring.\<close>

definition set_line_widths :: "goban \<Rightarrow> real list \<Rightarrow> outcome" where
  "set_line_widths g ws =
     (case py_min ws of
        Inl e \<Rightarrow> Raised e g
      | Inr lo \<Rightarrow>
          (case py_max ws of
             Inl e \<Rightarrow> Raised e g
           | Inr hi \<Rightarrow> Returned (g\<lparr>line_widths := (lo, hi)\<rparr>)))"

definition set_star_point_settings :: "goban \<Rightarrow> star_pos option \<Rightarrow> real option \<Rightarrow> outcome" where
  "set_star_point_settings g pos diameter =
     (let g1 = (case pos of None \<Rightarrow> g | Some p \<Rightarrow> g\<lparr>star_point_pos := Some p\<rparr>);
          g2 = (case diameter of None \<Rightarrow> g1 | Some d \<Rightarrow> g1\<lparr>star_point_diameter := Some d\<rparr>)
      in Returned g2)"

definition set_line_spacing :: "goban \<Rightarrow> pyval \<Rightarrow> outcome" where
  "set_line_spacing g v =
     (if is_float v then Returned (g\<lparr>line_spacing := (float_value v, float_value v)\<rparr>)
      else (case v of
        PTuple xs \<Rightarrow>
          if length xs \<noteq> 2 then
            Raised (ValueError ''Parameter line_spacing must be a tuple of two values'') g
          else if \<not> is_float (xs ! 0) \<or> \<not> is_float (xs ! 1) then
            Raised (ValueError ''Parameter line_spacing must be a tuple of integers.'') g
          else Returned (g\<lparr>line_spacing := (float_value (xs ! 0), float_value (xs ! 1))\<rparr>)
      | _ \<Rightarrow> Raised (ValueError ''Parameter line_spacing may only be a float or a tuple.'') g))"

definition set_border_spacing :: "goban \<Rightarrow> pyval \<Rightarrow> outcome" where
  "set_border_spacing g v =
     (if is_float v then Returned (g\<lparr>border_spacing := (float_value v, float_value v)\<rparr>)
      else (case v of
        PTuple xs \<Rightarrow>
          if length xs \<noteq> 2 then
            Raised (ValueError ''Parameter border_spacing must be a tuple of two values'') g
          else if \<not> is_float (xs ! 0) \<or> \<not> is_float (xs ! 1) then
            Raised (ValueError ''Parameter border_spacing must be a tuple of integers.'') g
          else Returned (g\<lparr>border_spacing := (float_value (xs ! 0), float_value (xs ! 1))\<rparr>)
      | _ \<Rightarrow> Raised (ValueError ''Parameter border_spacing may only be a float or a tuple.'') g))"

text \<open>
  \<^verbatim>\<open>sep.join(items)\<close>: every item must be a \<^verbatim>\<open>str\<close>; the first item that is not one
  raises a \<^verbatim>\<open>TypeError\<close> that names its position. An annotation style is \<^verbatim>\<open>None\<close> or
  a string, so the items are of type \<open>string option\<close>.
\<close>

fun str_nat :: "nat \<Rightarrow> string" where
  "str_nat n =
     (if n < 10 then [char_of (48 + n)]
      else str_nat (n div 10) @ [char_of (48 + n mod 10)])"

definition str_int :: "int \<Rightarrow> string" where
  "str_int i = (if i < 0 then CHR ''-'' # str_nat (nat (- i)) else str_nat (nat i))"

fun join_from :: "nat \<Rightarrow> string \<Rightarrow> string option list \<Rightarrow> py_error + string" where
  "join_from k sep [] = Inr []"
| "join_from k sep (None # xs) =
     Inl (TypeError (''sequence item '' @ str_nat k @ '': expected str instance, NoneType found''))"
| "join_from k sep (Some x # xs) =
     (case join_from (Suc k) sep xs of
        Inl e \<Rightarrow> Inl e
      | Inr rest \<Rightarrow> Inr (if xs = [] then x else x @ sep @ rest))"

definition join :: "string \<Rightarrow> string option list \<Rightarrow> py_error + string" where
  "join sep xs = join_from 0 sep xs"

definition legal_values :: "string option list" where
  "legal_values = [None, Some ''arabic_numerals'', Some ''chinese_numerals'', Some ''latin_letters'']"

text \<open>
  The exception that leaves the statement
  \<^verbatim>\<open>raise ValueError(f"Annotation must be one of {', '.join(legal_values)}.")\<close>:
  the message is evaluated first, and an exception of \<^verbatim>\<open>join\<close> replaces the
  \<^verbatim>\<open>ValueError\<close>.
\<close>

definition annotation_error :: py_error where
  "annotation_error =
     (case join '', '' legal_values of
        Inl e \<Rightarrow> e
      | Inr t \<Rightarrow> ValueError (''Annotation must be one of '' @ t @ ''.''))"

definition set_grid_annotation_style :: "goban \<Rightarrow> string option \<Rightarrow> string option \<Rightarrow> outcome" where
  "set_grid_annotation_style g x_ann y_ann =
     (if x_ann \<in> set legal_values then
        (let g1 = g\<lparr>x_annotation := x_ann\<rparr> in
         if y_ann \<in> set legal_values then Returned (g1\<lparr>y_annotation := y_ann\<rparr>)
         else Raised annotation_error g1)
      else Raised annotation_error g)"

definition set_font_face :: "goban \<Rightarrow> string \<Rightarrow> outcome" where
  "set_font_face g f = Returned (g\<lparr>font_face := f\<rparr>)"

definition set_font_size :: "goban \<Rightarrow> real \<Rightarrow> outcome" where
  "set_font_size g f = Returned (g\<lparr>font_size := f\<rparr>)"

subsection \<open>The constructor\<close>

record init_args =
  arg_size :: pyval
  arg_line_widths :: "real list"
  arg_line_spacing :: pyval
  arg_border_spacing :: pyval
  arg_star_point_diameter :: "real option"
  arg_star_point_pos :: "star_pos option"
  arg_x_annotation :: "string option"
  arg_y_annotation :: "string option"
  arg_font_face :: string
  arg_font_size :: real

definition default_args :: init_args where
  "default_args =
     \<lparr> arg_size = PTuple [PInt 9, PInt 9],
       arg_line_widths = [1, 2],
       arg_line_spacing = PTuple [PFloat 22, PFloat 23.7],
       arg_border_spacing = PTuple [PFloat 11, PFloat 12],
       arg_star_point_diameter = Some 4,
       arg_star_point_pos = Some Auto,
       arg_x_annotation = None,
       arg_y_annotation = None,
       arg_font_face = ''Microsoft YaHei'',
       arg_font_size = 8 \<rparr>"

definition init :: "goban \<Rightarrow> init_args \<Rightarrow> outcome" where
  "init self a =
     and_then (set_board_size self (arg_size a)) (\<lambda>g.
     and_then (set_line_widths g (arg_line_widths a)) (\<lambda>g.
     and_then (set_line_spacing g (arg_line_spacing a)) (\<lambda>g.
     and_then (set_border_spacing g (arg_border_spacing a)) (\<lambda>g.
     and_then (set_grid_annotation_style g (arg_x_annotation a) (arg_y_annotation a)) (\<lambda>g.
     and_then (set_star_point_settings g (arg_star_point_pos a) (arg_star_point_diameter a)) (\<lambda>g.
     and_then (set_font_face g (arg_font_face a)) (\<lambda>g.
     set_font_size g (arg_font_size a))))))))"

text \<open>
  An object before \<^verbatim>\<open>__init__\<close> has no attribute at all. The record has a value in
  every field, so a new object carries placeholders, each overwritten by the time
  \<open>init\<close> returns; the two star point attributes start as missing.
\<close>

definition new_object :: goban where
  "new_object =
     \<lparr> board_size = (0, 0), line_widths = (0, 0), line_spacing = (0, 0),
       border_spacing = (0, 0), star_point_pos = None, star_point_diameter = None,
       x_annotation = None, y_annotation = None, font_face = [], font_size = 0 \<rparr>"

text \<open>\<^verbatim>\<open>GobanMaker()\<close>, the object built from the default arguments.\<close>

definition default_goban :: goban where
  "default_goban =
     \<lparr> board_size = (9, 9), line_widths = (1, 2), line_spacing = (22, 23.7),
       border_spacing = (11, 12), star_point_pos = Some Auto, star_point_diameter = Some 4,
       x_annotation = None, y_annotation = None, font_face = ''Microsoft YaHei'',
       font_size = 8 \<rparr>"

subsection \<open>Annotation strings\<close>

definition ascii_uppercase :: string where
  "ascii_uppercase = ''ABCDEFGHIJKLMNOPQRSTUVWXYZ''"

text \<open>
  \<^verbatim>\<open>s.replace(old, new)\<close>: the occurrences of \<open>old\<close> are replaced from the left, without
  overlap; an empty \<open>old\<close> matches before every character and at the end.
\<close>

function replace_scan :: "string \<Rightarrow> string \<Rightarrow> string \<Rightarrow> string" where
  "replace_scan old new [] = []"
| "replace_scan old new (c # cs) =
     (if old \<noteq> [] \<and> prefix old (c # cs)
      then new @ replace_scan old new (drop (length old) (c # cs))
      else c # replace_scan old new cs)"
  by pat_completeness auto
termination
  by (relation "measure (\<lambda>(old, new, s). length s)") auto

definition replace :: "string \<Rightarrow> string \<Rightarrow> string \<Rightarrow> string" where
  "replace s old new =
     (if old = [] then new @ concat (map (\<lambda>c. c # new) s) else replace_scan old new s)"

text \<open>\<^verbatim>\<open>s[i]\<close> on a string: a negative index counts from the end.\<close>

definition str_index :: "string \<Rightarrow> int \<Rightarrow> py_error + string" where
  "str_index s i =
     (let n = int (length s); j = (if i < 0 then n + i else i) in
      if 0 \<le> j \<and> j < n then Inr [s ! nat j]
      else Inl (IndexError ''string index out of range''))"

text \<open>The text that an f-string puts in place of an annotation style.\<close>

fun format_style :: "string option \<Rightarrow> string" where
  "format_style None = ''None''"
| "format_style (Some s) = s"

text \<open>
  \<open>an2cn\<close> is \<^verbatim>\<open>cn2an.an2cn\<close> of the library \<^verbatim>\<open>cn2an\<close>, which is not part of the
  repository: it is a parameter.
\<close>

definition get_annotation_string ::
    "(int \<Rightarrow> py_error + string) \<Rightarrow> int \<Rightarrow> string option \<Rightarrow> py_error + string" where
  "get_annotation_string an2cn index annotation_style =
     (if annotation_style = Some ''arabic_numerals'' then Inr (str_int (index + 1))
      else if annotation_style = Some ''latin_letters'' then
        str_index (replace ascii_uppercase ''I'' []) index
      else if annotation_style = Some ''chinese_numerals'' then an2cn (index + 1)
      else Inl (ValueError (''Unknown annotation style '' @ [CHR 0x27]
                  @ format_style annotation_style @ [CHR 0x27] @ '' specified.'')))"

text \<open>
  The letters as the specification words them: the uppercase Latin letters, from
  \<open>A\<close> (code 65) to \<open>Z\<close> (code 90), with \<open>I\<close> left out.
\<close>

definition letters_skipping_I :: string where
  "letters_skipping_I = filter (\<lambda>c. c \<noteq> CHR ''I'') (map char_of [65 ..< 91 :: nat])"

subsection \<open>Drawing\<close>

text \<open>
  The cairo context is the external collaborator. A drawing method is modelled by the
  calls it issues, in order, and by the exception that ended it, if one did.
\<close>

datatype draw_op =
    SVGSurface string real real
  | SetDocumentUnitMM
  | SetLineCapRound
  | SetLineWidth real
  | SetSourceRGB real real real
  | MoveTo real real
  | LineTo real real
  | Arc real real real real real
  | ClosePath
  | Stroke
  | SelectFontFace string
  | SetFontSize real
  | Save
  | Restore
  | Translate real real
  | Rotate real
  | ShowText string

type_synonym drawing = "draw_op list \<times> py_error option"

definition seq :: "drawing \<Rightarrow> drawing \<Rightarrow> drawing" where
  "seq d1 d2 = (case snd d1 of Some e \<Rightarrow> d1 | None \<Rightarrow> (fst d1 @ fst d2, snd d2))"

text \<open>\<^verbatim>\<open>range(n)\<close>: the integers from 0 up to \<open>n - 1\<close>, none when \<open>n \<le> 0\<close>.\<close>

definition py_range :: "int \<Rightarrow> int list" where
  "py_range n = [0 .. n - 1]"

text \<open>
  What the context answers to \<^verbatim>\<open>font_extents()[2]\<close>, \<^verbatim>\<open>text_extents(s)[0]\<close> and
  \<^verbatim>\<open>text_extents(s)[2]\<close>.
\<close>

record metrics =
  font_height :: real
  text_x_bearing :: "string \<Rightarrow> real"
  text_width :: "string \<Rightarrow> real"

definition add_text :: "metrics \<Rightarrow> string \<Rightarrow> real \<times> real \<Rightarrow> real \<Rightarrow> draw_op list" where
  "add_text m my_text pos theta =
     (let fheight = font_height m;
          x_off = text_x_bearing m my_text;
          tw = text_width m my_text;
          nx = - tw / 2 - x_off;
          ny = fheight / 3
      in [Save, Translate (fst pos) (snd pos), Rotate theta, Translate nx ny,
          MoveTo 0 0, ShowText my_text, Restore])"

definition draw_grid :: "goban \<Rightarrow> draw_op list" where
  "draw_grid g =
     (let cols = fst (board_size g); rows = snd (board_size g);
          y_lower_border = snd (border_spacing g);
          y_upper_border = snd (border_spacing g) + of_int (rows - 1) * snd (line_spacing g);
          x_lower_border = fst (border_spacing g);
          x_upper_border = fst (border_spacing g) + of_int (cols - 1) * fst (line_spacing g)
      in [SetLineCapRound]
         @ concat (map (\<lambda>vertical_lines.
             let x_pos = fst (border_spacing g) + of_int vertical_lines * fst (line_spacing g);
                 current_line_width =
                   (if vertical_lines = 0 \<or> vertical_lines = cols - 1
                    then snd (line_widths g) else fst (line_widths g))
             in [SetLineWidth current_line_width, MoveTo x_pos y_lower_border,
                 LineTo x_pos y_upper_border, Stroke]) (py_range cols))
         @ concat (map (\<lambda>horizontal_lines.
             let y_pos = snd (border_spacing g) + of_int horizontal_lines * snd (line_spacing g);
                 current_line_width =
                   (if horizontal_lines = 0 \<or> horizontal_lines = rows - 1
                    then snd (line_widths g) else fst (line_widths g))
             in [SetLineWidth current_line_width, MoveTo x_lower_border y_pos,
                 LineTo x_upper_border y_pos, Stroke]) (py_range rows)))"

definition draw_star_points :: "goban \<Rightarrow> drawing" where
  "draw_star_points g =
     (case star_point_pos g of
        None \<Rightarrow>
          ([SetLineCapRound],
           Some (AttributeError ([CHR 0x27] @ ''GobanMaker'' @ [CHR 0x27]
                   @ '' object has no attribute '' @ [CHR 0x27] @ ''star_point_pos''
                   @ [CHR 0x27])))
      | Some sp \<Rightarrow>
          (let pts = (case sp of Auto \<Rightarrow> get_auto_star_point_pos g | Coords ps \<Rightarrow> ps) in
           ([SetLineCapRound]
            @ concat (map (\<lambda>(x_grid_pos, y_grid_pos).
                let x_pos = fst (border_spacing g) + fst (line_spacing g) * (x_grid_pos - 1);
                    y_pos = snd (border_spacing g) + snd (line_spacing g) * (y_grid_pos - 1)
                in [SetLineWidth 4, MoveTo x_pos y_pos, LineTo x_pos y_pos, Stroke]) pts),
            None)))"

text \<open>
  A \<^verbatim>\<open>for\<close> loop over grid lines whose body formats a label and then draws: it stops
  at the first line whose label raises.
\<close>

fun for_lines :: "(int \<Rightarrow> py_error + draw_op list) \<Rightarrow> int list \<Rightarrow> drawing" where
  "for_lines body [] = ([], None)"
| "for_lines body (i # rest) =
     (case body i of
        Inl e \<Rightarrow> ([], Some e)
      | Inr ops \<Rightarrow> (ops @ fst (for_lines body rest), snd (for_lines body rest)))"

definition draw_x_annotations ::
    "metrics \<Rightarrow> (int \<Rightarrow> py_error + string) \<Rightarrow> goban \<Rightarrow> drawing" where
  "draw_x_annotations m an2cn g =
     (let center_factor = 0.3 :: real in
      if x_annotation g \<noteq> None then
        (let y_lower_border = snd (border_spacing g) * center_factor;
             y_upper_border = snd (border_spacing g) * (2 - center_factor)
                              + of_int (snd (board_size g) - 1) * snd (line_spacing g)
         in for_lines (\<lambda>vertical_lines.
              case get_annotation_string an2cn vertical_lines (x_annotation g) of
                Inl e \<Rightarrow> Inl e
              | Inr s \<Rightarrow>
                  (let x_pos = fst (border_spacing g)
                               + of_int vertical_lines * fst (line_spacing g)
                   in Inr (add_text m s (x_pos, y_lower_border) pi
                           @ add_text m s (x_pos, y_upper_border) 0)))
            (py_range (fst (board_size g))))
      else ([], None))"

definition draw_y_annotations ::
    "metrics \<Rightarrow> (int \<Rightarrow> py_error + string) \<Rightarrow> goban \<Rightarrow> drawing" where
  "draw_y_annotations m an2cn g =
     (let center_factor = 0.3 :: real in
      if y_annotation g \<noteq> None then
        (let x_lower_border = fst (border_spacing g) * center_factor;
             x_upper_border = fst (border_spacing g) * (2 - center_factor)
                              + of_int (fst (board_size g) - 1) * fst (line_spacing g)
         in for_lines (\<lambda>horizontal_lines.
              case get_annotation_string an2cn
                     (snd (board_size g) - horizontal_lines - 1) (y_annotation g) of
                Inl e \<Rightarrow> Inl e
              | Inr s \<Rightarrow>
                  (let y_pos = snd (border_spacing g)
                               + of_int horizontal_lines * snd (line_spacing g)
                   in Inr (add_text m s (x_lower_border, y_pos) 0
                           @ add_text m s (x_upper_border, y_pos) pi)))
            (py_range (snd (board_size g))))
      else ([], None))"

definition draw_annotations ::
    "metrics \<Rightarrow> (int \<Rightarrow> py_error + string) \<Rightarrow> goban \<Rightarrow> drawing" where
  "draw_annotations m an2cn g =
     seq ([SelectFontFace (font_face g), SetFontSize (font_size g)], None)
       (seq (draw_x_annotations m an2cn g) (draw_y_annotations m an2cn g))"

definition draw_border :: "goban \<Rightarrow> draw_op list" where
  "draw_border g =
     (let line_width = snd (line_widths g);
          x = line_width / 2;
          y = line_width / 2;
          width = fst (get_board_dimensions g) - line_width;
          height = snd (get_board_dimensions g) - line_width;
          r = fst (line_spacing g) / 3
      in [SetLineWidth line_width, SetSourceRGB 0 0 0, MoveTo x (y + r),
          Arc (x + r) (y + r) r pi (3 * pi / 2),
          Arc (x + width - r) (y + r) r (3 * pi / 2) 0,
          Arc (x + width - r) (y + height - r) r 0 (pi / 2),
          Arc (x + r) (y + height - r) r (pi / 2) pi,
          ClosePath, Stroke])"

definition create_svg_file ::
    "metrics \<Rightarrow> (int \<Rightarrow> py_error + string) \<Rightarrow> goban \<Rightarrow> string \<Rightarrow> drawing" where
  "create_svg_file m an2cn g file_path =
     (let board_width = fst (get_board_dimensions g);
          board_height = snd (get_board_dimensions g)
      in seq ([SVGSurface file_path board_width board_height, SetDocumentUnitMM], None)
        (seq (draw_grid g, None)
        (seq (draw_star_points g)
        (seq (draw_annotations m an2cn g)
             (draw_border g, None)))))"

subsection \<open>Vocabulary of the specification\<close>

text \<open>
  A size input that is not a size: a value that is neither an integer nor a tuple, a tuple
  of a length other than two, or a pair with a component that is not an integer.
\<close>

fun rejected_size :: "pyval \<Rightarrow> bool" where
  "rejected_size (PTuple xs) = (length xs \<noteq> 2 \<or> \<not> list_all is_int xs)"
| "rejected_size v = (\<not> is_int v)"

section \<open>Properties\<close>

subsection \<open>The default object\<close>

lemma default_goban_fields:
  "board_size default_goban = (9, 9)"
  "line_widths default_goban = (1, 2)"
  "line_spacing default_goban = (22, 23.7)"
  "border_spacing default_goban = (11, 12)"
  "x_annotation default_goban = None"
  "y_annotation default_goban = None"
  by (simp_all add: default_goban_def)

subsection \<open>Automatic star points\<close>

text \<open>
  C1. On a 9 by 9 board the automatic placement computes exactly the nine traditional
  points: the four 3-3 points, the four points in the middle of the sides and the centre.
  The list has no duplicate, and it is given in the order in which the code builds it.
\<close>

theorem auto_star_points_9x9:
  assumes "board_size g = (9, 9)"
  shows "get_auto_star_point_pos g =
           [(3, 3), (3, 7), (7, 3), (7, 7), (5, 5), (5, 3), (5, 7), (3, 5), (7, 5)]
         \<and> set (get_auto_star_point_pos g) =
           {(3, 3), (3, 7), (7, 3), (7, 7), (5, 3), (5, 7), (3, 5), (7, 5), (5, 5)}
         \<and> distinct (get_auto_star_point_pos g)"
proof -
  have points: "get_auto_star_point_pos g =
      [(3, 3), (3, 7), (7, 3), (7, 7), (5, 5), (5, 3), (5, 7), (3, 5), (7, 5)]"
    using assms by (simp add: get_auto_star_point_pos_def Let_def)
  show ?thesis unfolding points by auto
qed

theorem auto_star_points_9x9_witness:
  "board_size default_goban = (9, 9)
   \<and> get_auto_star_point_pos default_goban =
       [(3, 3), (3, 7), (7, 3), (7, 7), (5, 5), (5, 3), (5, 7), (3, 5), (7, 5)]"
  using auto_star_points_9x9 [of default_goban] by (simp add: default_goban_fields)

text \<open>
  C5. On a grid of at least 3 by 3 lines with an odd number of rows, the list of automatic
  star points ends with exactly two more points, \<open>(3, y_mid)\<close> and \<open>(rows - 2, y_mid)\<close>
  with \<open>y_mid = (rows - 1) / 2 + 1\<close>: the first coordinate of the second point comes from
  the number of rows, not from the number of columns. What precedes them is the four
  corner points and, when the number of columns is odd, the centre and the two points of
  the middle column.
\<close>

theorem auto_star_points_odd_rows:
  assumes "board_size g = (cols, rows)" and "3 \<le> cols" and "3 \<le> rows"
    and "rows mod 2 \<noteq> 0"
  shows "get_auto_star_point_pos g =
           [ (3, 3), (3, of_int (rows - 2)), (of_int (cols - 2), 3),
             (of_int (cols - 2), of_int (rows - 2)) ]
           @ (if cols mod 2 \<noteq> 0
              then [ (of_int (cols - 1) / 2 + 1, of_int (rows - 1) / 2 + 1),
                     (of_int (cols - 1) / 2 + 1, 3),
                     (of_int (cols - 1) / 2 + 1, of_int (rows - 2)) ]
              else [])
           @ [ (3, of_int (rows - 1) / 2 + 1),
               (of_int (rows - 2), of_int (rows - 1) / 2 + 1) ]"
  using assms by (simp add: get_auto_star_point_pos_def Let_def)

theorem auto_star_points_odd_rows_witness:
  "board_size (default_goban\<lparr>board_size := (19, 9)\<rparr>) = (19, 9)
   \<and> (3::int) \<le> 19 \<and> (3::int) \<le> 9 \<and> (9::int) mod 2 \<noteq> 0
   \<and> get_auto_star_point_pos (default_goban\<lparr>board_size := (19, 9)\<rparr>) =
       [(3, 3), (3, 7), (17, 3), (17, 7), (10, 5), (10, 3), (10, 7), (3, 5), (7, 5)]"
  using auto_star_points_odd_rows [of "default_goban\<lparr>board_size := (19, 9)\<rparr>" 19 9]
  by simp

text \<open>
  C6. When either dimension of the grid is below 3, the automatic placement returns the
  empty list of star points.
\<close>

theorem auto_star_points_small_grid:
  assumes "fst (board_size g) < 3 \<or> snd (board_size g) < 3"
  shows "get_auto_star_point_pos g = []"
  using assms by (auto simp: get_auto_star_point_pos_def Let_def)

theorem auto_star_points_small_grid_witness:
  "(fst (board_size (default_goban\<lparr>board_size := (2, 9)\<rparr>)) < 3
     \<or> snd (board_size (default_goban\<lparr>board_size := (2, 9)\<rparr>)) < 3)
   \<and> get_auto_star_point_pos (default_goban\<lparr>board_size := (2, 9)\<rparr>) = []"
  using auto_star_points_small_grid [of "default_goban\<lparr>board_size := (2, 9)\<rparr>"]
  by simp

subsection \<open>Board dimensions\<close>

text \<open>
  C2. For a grid of \<open>cols\<close> by \<open>rows\<close> lines, line spacing \<open>(spacing_x, spacing_y)\<close> and
  border spacing \<open>(border_x, border_y)\<close>, the board is
  \<open>(cols - 1) * spacing_x + 2 * border_x\<close> wide and
  \<open>(rows - 1) * spacing_y + 2 * border_y\<close> high.
\<close>

theorem board_dimensions_formula:
  assumes "board_size g = (cols, rows)"
    and "line_spacing g = (spacing_x, spacing_y)"
    and "border_spacing g = (border_x, border_y)"
  shows "get_board_dimensions g =
           (of_int (cols - 1) * spacing_x + 2 * border_x,
            of_int (rows - 1) * spacing_y + 2 * border_y)"
  using assms by (simp add: get_board_dimensions_def)

theorem board_dimensions_formula_witness:
  "board_size default_goban = (9, 9)
   \<and> line_spacing default_goban = (22, 23.7)
   \<and> border_spacing default_goban = (11, 12)
   \<and> get_board_dimensions default_goban = (198, 213.6)"
  using board_dimensions_formula [of default_goban 9 9 22 "23.7" 11 12]
  by (simp add: default_goban_fields)

subsection \<open>Board size\<close>

lemma list_all_pair:
  "length xs = 2 \<Longrightarrow> list_all P xs = (P (xs ! 0) \<and> P (xs ! 1))"
  by (cases xs; cases "tl xs") auto

text \<open>
  C3, as the code has it. A size input that is neither an integer nor a tuple, a tuple of
  a length other than two, or a pair with a component that is not an integer makes
  \<open>set_board_size\<close> raise a \<open>ValueError\<close> (the configuration error of the code) and
  leaves the object as it was. Every other input is stored as given, whatever the
  integers are: an integer \<open>n\<close> as the pair \<open>(n, n)\<close>, a pair of integers as that pair.
  There is no test of their sign.
\<close>

theorem set_board_size_rejects:
  "(rejected_size v \<longrightarrow> (\<exists>msg. set_board_size g v = Raised (ValueError msg) g))
   \<and> (\<not> rejected_size v \<longrightarrow>
        (is_int v
           \<and> set_board_size g v
               = Returned (g\<lparr>board_size := (int_value v, int_value v)\<rparr>))
        \<or> (\<exists>a b. v = PTuple [a, b] \<and> is_int a \<and> is_int b
              \<and> set_board_size g v
                  = Returned (g\<lparr>board_size := (int_value a, int_value b)\<rparr>)))
   \<and> set_board_size g (PInt n) = Returned (g\<lparr>board_size := (n, n)\<rparr>)
   \<and> set_board_size g (PTuple [PInt cols, PInt rows])
       = Returned (g\<lparr>board_size := (cols, rows)\<rparr>)"
proof (intro conjI impI)
  assume "rejected_size v"
  show "\<exists>msg. set_board_size g v = Raised (ValueError msg) g"
  proof (cases v)
    case (PTuple xs)
    show ?thesis
    proof (cases "length xs = 2")
      case True
      then have "list_all is_int xs = (is_int (xs ! 0) \<and> is_int (xs ! 1))"
        by (rule list_all_pair)
      with True PTuple \<open>rejected_size v\<close> show ?thesis
        by (auto simp: set_board_size_def)
    next
      case False
      with PTuple show ?thesis by (simp add: set_board_size_def)
    qed
  qed (use \<open>rejected_size v\<close> in \<open>auto simp: set_board_size_def\<close>)
next
  assume ok: "\<not> rejected_size v"
  show "(is_int v
           \<and> set_board_size g v
               = Returned (g\<lparr>board_size := (int_value v, int_value v)\<rparr>))
        \<or> (\<exists>a b. v = PTuple [a, b] \<and> is_int a \<and> is_int b
              \<and> set_board_size g v
                  = Returned (g\<lparr>board_size := (int_value a, int_value b)\<rparr>))"
  proof (cases v)
    case (PTuple xs)
    with ok have len: "length xs = 2" and ints: "list_all is_int xs" by simp_all
    from len obtain a b where xs: "xs = [a, b]"
      by (cases xs; cases "tl xs") auto
    with ints have "is_int a" "is_int b" by simp_all
    with PTuple xs show ?thesis by (simp add: set_board_size_def)
  qed (use ok in \<open>auto simp: set_board_size_def\<close>)
next
  show "set_board_size g (PInt n) = Returned (g\<lparr>board_size := (n, n)\<rparr>)"
    by (simp add: set_board_size_def)
next
  show "set_board_size g (PTuple [PInt cols, PInt rows])
       = Returned (g\<lparr>board_size := (cols, rows)\<rparr>)"
    by (simp add: set_board_size_def)
qed

theorem set_board_size_rejects_witness:
  "rejected_size (PFloat 9.5)
   \<and> set_board_size default_goban (PFloat 9.5)
       = Raised (ValueError ''Parameter size may only be an int or a tuple.'') default_goban
   \<and> rejected_size (PTuple [PInt 9, PInt 9, PInt 9])
   \<and> set_board_size default_goban (PTuple [PInt 9, PInt 9, PInt 9])
       = Raised (ValueError ''Board size must be two-dimensional.'') default_goban
   \<and> \<not> rejected_size (PTuple [PInt 19, PInt 13])
   \<and> set_board_size default_goban (PTuple [PInt 19, PInt 13])
       = Returned (default_goban\<lparr>board_size := (19, 13)\<rparr>)
   \<and> \<not> rejected_size (PInt 13)
   \<and> set_board_size default_goban (PInt 13)
       = Returned (default_goban\<lparr>board_size := (13, 13)\<rparr>)"
  using set_board_size_rejects [of "PFloat 9.5" default_goban 13 19 13]
    set_board_size_rejects [of "PTuple [PInt 9, PInt 9, PInt 9]" default_goban 13 19 13]
    set_board_size_rejects [of "PTuple [PInt 19, PInt 13]" default_goban 13 19 13]
    set_board_size_rejects [of "PInt 13" default_goban 13 19 13]
  by (simp add: set_board_size_def)

text \<open>
  A pair with a zero dimension is accepted: the call returns and the pair is stored.
\<close>

theorem set_board_size_accepts_zero:
  "set_board_size default_goban (PTuple [PInt 0, PInt 5])
     = Returned (default_goban\<lparr>board_size := (0, 5)\<rparr>)"
  by (simp add: set_board_size_def)

subsection \<open>Annotation styles\<close>

lemma annotation_error_eq:
  "annotation_error = TypeError ''sequence item 0: expected str instance, NoneType found''"
  by code_simp

lemma unknown_style:
  assumes "style \<notin> set legal_values"
  shows "get_annotation_string an2cn index style =
           Inl (ValueError (''Unknown annotation style '' @ [CHR 0x27]
                  @ format_style style @ [CHR 0x27] @ '' specified.''))"
  using assms by (auto simp: get_annotation_string_def legal_values_def)

lemma unrecognized_style_raises:
  assumes "style \<notin> set legal_values"
  shows "set_grid_annotation_style g style other
           = Raised (TypeError ''sequence item 0: expected str instance, NoneType found'') g"
  using assms by (simp add: set_grid_annotation_style_def annotation_error_eq)

text \<open>
  C4, at the style \<open>roman_numerals\<close>, which is not one of the four recognised values.
  \<open>set_grid_annotation_style\<close> fails and stores nothing, but the exception that leaves
  it is not the \<open>ValueError\<close> of its \<^verbatim>\<open>raise\<close> statement: building the message of that
  error joins the legal values, of which the first is \<^verbatim>\<open>None\<close>, and the join raises a
  \<open>TypeError\<close>. Its message does not contain the name of the style. The other place
  where the code meets an unrecognised style, \<open>get_annotation_string\<close>, raises a
  \<open>ValueError\<close> whose message contains the name.
\<close>

theorem setter_error_lacks_style_name:
  "set_grid_annotation_style default_goban (Some ''roman_numerals'') None
     = Raised (TypeError ''sequence item 0: expected str instance, NoneType found'')
         default_goban
   \<and> \<not> sublist ''roman_numerals''
         ''sequence item 0: expected str instance, NoneType found''
   \<and> get_annotation_string (\<lambda>n. Inr []) 0 (Some ''roman_numerals'')
       = Inl (ValueError (''Unknown annotation style '' @ [CHR 0x27]
                @ ''roman_numerals'' @ [CHR 0x27] @ '' specified.''))
   \<and> sublist ''roman_numerals''
         (''Unknown annotation style '' @ [CHR 0x27]
            @ ''roman_numerals'' @ [CHR 0x27] @ '' specified.'')"
proof -
  have "sublist ''roman_numerals''
         (''Unknown annotation style '' @ [CHR 0x27]
            @ ''roman_numerals'' @ [CHR 0x27] @ '' specified.'')"
    by (metis append.assoc sublist_appendI)
  moreover have "Some ''roman_numerals'' \<notin> set legal_values"
    by (simp add: legal_values_def)
  moreover have "\<not> sublist ''roman_numerals''
         ''sequence item 0: expected str instance, NoneType found''"
    by (simp add: sublist_Cons_right)
  ultimately show ?thesis
    using unrecognized_style_raises [of "Some ''roman_numerals''" default_goban None]
      unknown_style [of "Some ''roman_numerals''" "\<lambda>n. Inr []" 0]
    by simp
qed

text \<open>
  C9. \<open>set_grid_annotation_style\<close> is not atomic: with a recognised style for the x axis
  and an unrecognised one for the y axis it raises, and the object it leaves behind has
  the new \<open>x_annotation\<close>.
\<close>

theorem annotation_setter_not_atomic:
  assumes "x_ann \<in> set legal_values" and "y_ann \<notin> set legal_values"
  shows "\<exists>e. set_grid_annotation_style g x_ann y_ann = Raised e (g\<lparr>x_annotation := x_ann\<rparr>)"
  using assms by (simp add: set_grid_annotation_style_def Let_def)

theorem annotation_setter_not_atomic_witness:
  "Some ''latin_letters'' \<in> set legal_values
   \<and> Some ''roman_numerals'' \<notin> set legal_values
   \<and> set_grid_annotation_style default_goban (Some ''latin_letters'') (Some ''roman_numerals'')
       = Raised annotation_error (default_goban\<lparr>x_annotation := Some ''latin_letters''\<rparr>)
   \<and> x_annotation default_goban = None"
  using annotation_setter_not_atomic
    [of "Some ''latin_letters''" "Some ''roman_numerals''" default_goban]
  by (simp add: legal_values_def set_grid_annotation_style_def default_goban_fields)

subsection \<open>Latin letters\<close>

lemma letters_replace: "replace ascii_uppercase ''I'' [] = ''ABCDEFGHJKLMNOPQRSTUVWXYZ''"
  by (simp add: replace_def ascii_uppercase_def)

lemma letters_spec: "letters_skipping_I = ''ABCDEFGHJKLMNOPQRSTUVWXYZ''"
  unfolding letters_skipping_I_def by code_simp

text \<open>
  C8, as the code has it. With the style \<open>latin_letters\<close>, index 0 gives \<open>A\<close> and index 8
  gives \<open>J\<close>, the letter after \<open>H\<close> at index 7; for every index from 0 to 24 the label is
  the letter at that position among the uppercase Latin letters without \<open>I\<close>.
\<close>

theorem latin_letters_skip_I:
  "get_annotation_string an2cn 0 (Some ''latin_letters'') = Inr ''A''
   \<and> get_annotation_string an2cn 7 (Some ''latin_letters'') = Inr ''H''
   \<and> get_annotation_string an2cn 8 (Some ''latin_letters'') = Inr ''J''
   \<and> (0 \<le> index \<and> index \<le> 24 \<longrightarrow>
        get_annotation_string an2cn index (Some ''latin_letters'')
          = Inr [letters_skipping_I ! nat index])"
  by (simp add: get_annotation_string_def letters_replace letters_spec str_index_def)

theorem latin_letters_skip_I_witness:
  "(0::int) \<le> 24 \<and> (24::int) \<le> 24
   \<and> get_annotation_string (\<lambda>n. Inr []) 24 (Some ''latin_letters'') = Inr ''Z''"
  using latin_letters_skip_I [of "\<lambda>n. Inr []" 24] by (simp add: letters_spec)

text \<open>Index 7 is not \<open>J\<close>: seven letters precede \<open>H\<close>, and \<open>I\<close> comes after it.\<close>

theorem latin_letter_7_is_H:
  "get_annotation_string (\<lambda>n. Inr []) 7 (Some ''latin_letters'') = Inr ''H''
   \<and> get_annotation_string (\<lambda>n. Inr []) 7 (Some ''latin_letters'') \<noteq> Inr ''J''"
  by (simp add: get_annotation_string_def letters_replace str_index_def)

subsection \<open>Line widths\<close>

lemma foldl_min_le: "foldl (\<lambda>m y. if y < m then y else m) (a::real) xs \<le> a"
proof (induction xs arbitrary: a)
  case Nil
  show ?case by simp
next
  case (Cons x xs)
  show ?case
  proof (cases "x < a")
    case True
    have "foldl (\<lambda>m y. if y < m then y else m) x xs \<le> x" by (rule Cons.IH)
    with True show ?thesis by simp
  next
    case False
    with Cons.IH [of a] show ?thesis by simp
  qed
qed

lemma foldl_max_ge: "a \<le> foldl (\<lambda>m y. if y > m then y else m) (a::real) xs"
proof (induction xs arbitrary: a)
  case Nil
  show ?case by simp
next
  case (Cons x xs)
  show ?case
  proof (cases "x > a")
    case True
    have "x \<le> foldl (\<lambda>m y. if y > m then y else m) x xs" by (rule Cons.IH)
    with True show ?thesis by simp
  next
    case False
    with Cons.IH [of a] show ?thesis by simp
  qed
qed

lemma py_min_le_py_max:
  assumes "py_min ws = Inr lo" and "py_max ws = Inr hi"
  shows "lo \<le> hi"
proof (cases ws)
  case Nil
  with assms show ?thesis by simp
next
  case (Cons x xs)
  with assms have "lo \<le> x" "x \<le> hi"
    using foldl_min_le [of x xs] foldl_max_ge [of x xs] by auto
  then show ?thesis by simp
qed

lemma set_line_widths_ordered:
  assumes "set_line_widths g ws = Returned g'"
  shows "fst (line_widths g') \<le> snd (line_widths g')"
  using assms py_min_le_py_max [of ws]
  by (auto simp: set_line_widths_def split: sum.splits)

lemma and_then_Returned:
  "and_then r f = Returned g' \<Longrightarrow> \<exists>g1. r = Returned g1 \<and> f g1 = Returned g'"
  by (cases r) simp_all

lemma set_line_spacing_widths:
  "set_line_spacing g v = Returned g' \<Longrightarrow> line_widths g' = line_widths g"
  by (auto simp: set_line_spacing_def split: if_splits pyval.splits)

lemma set_border_spacing_widths:
  "set_border_spacing g v = Returned g' \<Longrightarrow> line_widths g' = line_widths g"
  by (auto simp: set_border_spacing_def split: if_splits pyval.splits)

lemma set_grid_annotation_style_widths:
  "set_grid_annotation_style g x y = Returned g' \<Longrightarrow> line_widths g' = line_widths g"
  by (auto simp: set_grid_annotation_style_def Let_def split: if_splits)

lemma set_star_point_settings_widths:
  "set_star_point_settings g p d = Returned g' \<Longrightarrow> line_widths g' = line_widths g"
  by (auto simp: set_star_point_settings_def Let_def split: option.splits)

lemma set_font_face_widths:
  "set_font_face g f = Returned g' \<Longrightarrow> line_widths g' = line_widths g"
  by (auto simp: set_font_face_def)

lemma set_font_size_widths:
  "set_font_size g s = Returned g' \<Longrightarrow> line_widths g' = line_widths g"
  by (auto simp: set_font_size_def)

lemma init_line_widths:
  assumes "init self a = Returned g'"
  shows "\<exists>g0 g1. set_line_widths g0 (arg_line_widths a) = Returned g1
                 \<and> line_widths g' = line_widths g1"
proof -
  from assms obtain g1 where
    r1: "and_then (set_line_widths g1 (arg_line_widths a)) (\<lambda>g.
     and_then (set_line_spacing g (arg_line_spacing a)) (\<lambda>g.
     and_then (set_border_spacing g (arg_border_spacing a)) (\<lambda>g.
     and_then (set_grid_annotation_style g (arg_x_annotation a) (arg_y_annotation a)) (\<lambda>g.
     and_then (set_star_point_settings g (arg_star_point_pos a) (arg_star_point_diameter a)) (\<lambda>g.
     and_then (set_font_face g (arg_font_face a)) (\<lambda>g.
     set_font_size g (arg_font_size a))))))) = Returned g'"
    unfolding init_def by (blast dest: and_then_Returned)
  from r1 obtain g2 where w: "set_line_widths g1 (arg_line_widths a) = Returned g2"
    and r2: "and_then (set_line_spacing g2 (arg_line_spacing a)) (\<lambda>g.
     and_then (set_border_spacing g (arg_border_spacing a)) (\<lambda>g.
     and_then (set_grid_annotation_style g (arg_x_annotation a) (arg_y_annotation a)) (\<lambda>g.
     and_then (set_star_point_settings g (arg_star_point_pos a) (arg_star_point_diameter a)) (\<lambda>g.
     and_then (set_font_face g (arg_font_face a)) (\<lambda>g.
     set_font_size g (arg_font_size a)))))) = Returned g'"
    by (blast dest: and_then_Returned)
  from r2 obtain g3 where s3: "set_line_spacing g2 (arg_line_spacing a) = Returned g3"
    and r3: "and_then (set_border_spacing g3 (arg_border_spacing a)) (\<lambda>g.
     and_then (set_grid_annotation_style g (arg_x_annotation a) (arg_y_annotation a)) (\<lambda>g.
     and_then (set_star_point_settings g (arg_star_point_pos a) (arg_star_point_diameter a)) (\<lambda>g.
     and_then (set_font_face g (arg_font_face a)) (\<lambda>g.
     set_font_size g (arg_font_size a))))) = Returned g'"
    by (blast dest: and_then_Returned)
  from r3 obtain g4 where s4: "set_border_spacing g3 (arg_border_spacing a) = Returned g4"
    and r4: "and_then (set_grid_annotation_style g4 (arg_x_annotation a) (arg_y_annotation a)) (\<lambda>g.
     and_then (set_star_point_settings g (arg_star_point_pos a) (arg_star_point_diameter a)) (\<lambda>g.
     and_then (set_font_face g (arg_font_face a)) (\<lambda>g.
     set_font_size g (arg_font_size a)))) = Returned g'"
    by (blast dest: and_then_Returned)
  from r4 obtain g5 where
    s5: "set_grid_annotation_style g4 (arg_x_annotation a) (arg_y_annotation a) = Returned g5"
    and r5: "and_then (set_star_point_settings g5 (arg_star_point_pos a) (arg_star_point_diameter a)) (\<lambda>g.
     and_then (set_font_face g (arg_font_face a)) (\<lambda>g.
     set_font_size g (arg_font_size a))) = Returned g'"
    by (blast dest: and_then_Returned)
  from r5 obtain g6 where
    s6: "set_star_point_settings g5 (arg_star_point_pos a) (arg_star_point_diameter a) = Returned g6"
    and r6: "and_then (set_font_face g6 (arg_font_face a)) (\<lambda>g.
     set_font_size g (arg_font_size a)) = Returned g'"
    by (blast dest: and_then_Returned)
  from r6 obtain g7 where s7: "set_font_face g6 (arg_font_face a) = Returned g7"
    and s8: "set_font_size g7 (arg_font_size a) = Returned g'"
    by (blast dest: and_then_Returned)
  have "line_widths g' = line_widths g2"
    using set_line_spacing_widths [OF s3] set_border_spacing_widths [OF s4]
      set_grid_annotation_style_widths [OF s5] set_star_point_settings_widths [OF s6]
      set_font_face_widths [OF s7] set_font_size_widths [OF s8]
    by simp
  with w show ?thesis by blast
qed

lemma init_default: "init new_object default_args = Returned default_goban"
  by (simp add: init_def default_args_def new_object_def default_goban_def
      set_board_size_def set_line_widths_def set_line_spacing_def set_border_spacing_def
      set_grid_annotation_style_def set_star_point_settings_def set_font_face_def
      set_font_size_def legal_values_def Let_def)

text \<open>
  C7. After \<open>set_line_widths\<close> has returned, in a call of its own or in the constructor,
  the stored pair has its smaller width first: on two widths the call returns and stores
  their minimum and their maximum, whatever their order, and the pair stored by any call
  that returns, and by any construction that succeeds, is ordered.
\<close>

theorem line_widths_ordered:
  "set_line_widths g [a, b] = Returned (g\<lparr>line_widths := (min a b, max a b)\<rparr>)
   \<and> (set_line_widths g ws = Returned g' \<longrightarrow> fst (line_widths g') \<le> snd (line_widths g'))
   \<and> (init self args = Returned g'' \<longrightarrow> fst (line_widths g'') \<le> snd (line_widths g''))"
proof -
  have "set_line_widths g [a, b] = Returned (g\<lparr>line_widths := (min a b, max a b)\<rparr>)"
    by (auto simp: set_line_widths_def min_def max_def)
  moreover have "fst (line_widths g'') \<le> snd (line_widths g'')" if "init self args = Returned g''"
    using init_line_widths [OF that] set_line_widths_ordered by auto
  ultimately show ?thesis using set_line_widths_ordered by blast
qed

lemma set_line_widths_swapped: "set_line_widths default_goban [2, 1] = Returned default_goban"
  by (simp add: set_line_widths_def default_goban_def)

theorem line_widths_ordered_witness:
  "set_line_widths default_goban [2, 1] = Returned default_goban
   \<and> init new_object default_args = Returned default_goban
   \<and> fst (line_widths default_goban) \<le> snd (line_widths default_goban)"
  using line_widths_ordered [of default_goban 2 1 "[2, 1]" default_goban new_object default_args default_goban]
    init_default set_line_widths_swapped
  by simp

subsection \<open>Latin letters beyond the alphabet\<close>

lemma latin_label:
  "get_annotation_string an2cn index (Some ''latin_letters'') =
     (if - 25 \<le> index \<and> index \<le> 24
      then Inr [''ABCDEFGHJKLMNOPQRSTUVWXYZ'' ! nat (if index < 0 then 25 + index else index)]
      else Inl (IndexError ''string index out of range''))"
  by (simp add: get_annotation_string_def letters_replace str_index_def)

lemma snd_seq: "snd (seq d1 d2) = (case snd d1 of Some e \<Rightarrow> Some e | None \<Rightarrow> snd d2)"
  by (simp add: seq_def split: option.splits)

lemma for_lines_label_fails:
  assumes "i \<in> set lines" and "f i = Inl e0"
    and "\<And>j e. j \<in> set lines \<Longrightarrow> f j = Inl e \<Longrightarrow> e = e0"
  shows "snd (for_lines (\<lambda>i. case f i of Inl e \<Rightarrow> Inl e | Inr s \<Rightarrow> Inr (k i s)) lines) = Some e0"
  using assms
proof (induction lines)
  case Nil
  then show ?case by simp
next
  case (Cons j lines)
  show ?case
  proof (cases "f j")
    case (Inl e)
    have "e = e0" by (rule Cons.prems(3) [of j e]) (simp_all add: Inl)
    with Inl show ?thesis by simp
  next
    case (Inr s)
    with Cons.prems(1,2) have mem: "i \<in> set lines" by auto
    have "snd (for_lines (\<lambda>i. case f i of Inl e \<Rightarrow> Inl e | Inr s \<Rightarrow> Inr (k i s)) lines) = Some e0"
    proof (rule Cons.IH)
      show "i \<in> set lines" by (rule mem)
      show "f i = Inl e0" by (rule Cons.prems(2))
      show "e = e0" if "j' \<in> set lines" "f j' = Inl e" for j' e
        by (rule Cons.prems(3) [of j' e]) (simp_all add: that)
    qed
    then show ?thesis by (simp add: Inr)
  qed
qed

lemma py_range_mem: "i \<in> set (py_range n) \<longleftrightarrow> 0 \<le> i \<and> i < n"
  by (auto simp: py_range_def)

lemma latin_label_error:
  "get_annotation_string an2cn index (Some ''latin_letters'') = Inl e
     \<Longrightarrow> e = IndexError ''string index out of range''"
  by (simp add: latin_label split: if_splits)

lemma x_annotations_fail:
  assumes "x_annotation g = Some ''latin_letters''" and "25 < fst (board_size g)"
  shows "snd (draw_x_annotations m an2cn g) = Some (IndexError ''string index out of range'')"
proof -
  have "snd (for_lines (\<lambda>i. case get_annotation_string an2cn i (Some ''latin_letters'') of
                Inl e \<Rightarrow> Inl e
              | Inr s \<Rightarrow> Inr (add_text m s (fst (border_spacing g) + of_int i * fst (line_spacing g),
                                    snd (border_spacing g) * 0.3) pi
                           @ add_text m s (fst (border_spacing g) + of_int i * fst (line_spacing g),
                                    snd (border_spacing g) * (2 - 0.3)
                                    + of_int (snd (board_size g) - 1) * snd (line_spacing g)) 0))
            (py_range (fst (board_size g)))) = Some (IndexError ''string index out of range'')"
  proof (rule for_lines_label_fails [where i = 25])
    show "25 \<in> set (py_range (fst (board_size g)))"
      using assms(2) by (simp add: py_range_mem)
    show "get_annotation_string an2cn 25 (Some ''latin_letters'')
            = Inl (IndexError ''string index out of range'')"
      by (simp add: latin_label)
    show "e = IndexError ''string index out of range''"
      if "get_annotation_string an2cn j (Some ''latin_letters'') = Inl e" for j e
      using that by (rule latin_label_error)
  qed
  then show ?thesis
    unfolding draw_x_annotations_def Let_def assms(1) by simp
qed

lemma y_annotations_fail:
  assumes "y_annotation g = Some ''latin_letters''" and "25 < snd (board_size g)"
  shows "snd (draw_y_annotations m an2cn g) = Some (IndexError ''string index out of range'')"
proof -
  have "snd (for_lines (\<lambda>i. case get_annotation_string an2cn (snd (board_size g) - i - 1)
                                (Some ''latin_letters'') of
                Inl e \<Rightarrow> Inl e
              | Inr s \<Rightarrow> Inr (add_text m s (fst (border_spacing g) * 0.3,
                                    snd (border_spacing g) + of_int i * snd (line_spacing g)) 0
                           @ add_text m s (fst (border_spacing g) * (2 - 0.3)
                                    + of_int (fst (board_size g) - 1) * fst (line_spacing g),
                                    snd (border_spacing g) + of_int i * snd (line_spacing g)) pi))
            (py_range (snd (board_size g)))) = Some (IndexError ''string index out of range'')"
  proof (rule for_lines_label_fails
      [where i = 0 and f = "\<lambda>i. get_annotation_string an2cn (snd (board_size g) - i - 1)
                                (Some ''latin_letters'')"])
    show "0 \<in> set (py_range (snd (board_size g)))"
      using assms(2) by (simp add: py_range_mem)
    show "get_annotation_string an2cn (snd (board_size g) - 0 - 1) (Some ''latin_letters'')
            = Inl (IndexError ''string index out of range'')"
      using assms(2) by (simp add: latin_label)
    show "e = IndexError ''string index out of range''"
      if "get_annotation_string an2cn (snd (board_size g) - j - 1) (Some ''latin_letters'') = Inl e"
      for j e
      using that by (rule latin_label_error)
  qed
  then show ?thesis
    unfolding draw_y_annotations_def Let_def assms(1) by simp
qed

lemma create_svg_file_fails:
  assumes "snd (draw_annotations m an2cn g) \<noteq> None"
  shows "snd (create_svg_file m an2cn g p) \<noteq> None"
proof -
  from assms obtain e where "snd (draw_annotations m an2cn g) = Some e" by auto
  then show ?thesis
    unfolding create_svg_file_def Let_def
    by (simp add: snd_seq split: option.splits)
qed

text \<open>
  C10. For the index of a grid line, which is not negative, the style \<open>latin_letters\<close>
  gives a label only up to index 24: from 25 on the lookup in the 25 letters raises
  \<open>IndexError\<close>. So the rendering of a board with more than 25 lines on an axis annotated
  with latin letters fails: for the x axis the error that leaves \<open>draw_annotations\<close> is
  that \<open>IndexError\<close>, for the y axis \<open>draw_annotations\<close> raises, and in both cases so
  does \<open>create_svg_file\<close>.
\<close>

theorem latin_letters_index_range:
  "(0 \<le> index \<longrightarrow>
      ((\<exists>label. get_annotation_string an2cn index (Some ''latin_letters'') = Inr label)
         \<longleftrightarrow> index \<le> 24))
   \<and> (25 \<le> index \<longrightarrow>
        get_annotation_string an2cn index (Some ''latin_letters'')
          = Inl (IndexError ''string index out of range''))
   \<and> (x_annotation g = Some ''latin_letters'' \<and> 25 < fst (board_size g) \<longrightarrow>
        snd (draw_annotations m an2cn g) = Some (IndexError ''string index out of range'')
        \<and> snd (create_svg_file m an2cn g file_path) \<noteq> None)
   \<and> (y_annotation g = Some ''latin_letters'' \<and> 25 < snd (board_size g) \<longrightarrow>
        snd (draw_annotations m an2cn g) \<noteq> None
        \<and> snd (create_svg_file m an2cn g file_path) \<noteq> None)"
proof (intro conjI impI)
  assume "0 \<le> index"
  then show "(\<exists>label. get_annotation_string an2cn index (Some ''latin_letters'') = Inr label)
      \<longleftrightarrow> index \<le> 24"
    by (simp add: latin_label)
next
  assume "25 \<le> index"
  then show "get_annotation_string an2cn index (Some ''latin_letters'')
          = Inl (IndexError ''string index out of range'')"
    by (simp add: latin_label)
next
  assume "x_annotation g = Some ''latin_letters'' \<and> 25 < fst (board_size g)"
  then have "snd (draw_x_annotations m an2cn g) = Some (IndexError ''string index out of range'')"
    by (simp add: x_annotations_fail)
  then show x: "snd (draw_annotations m an2cn g) = Some (IndexError ''string index out of range'')"
    by (simp add: draw_annotations_def snd_seq)
  then show "snd (create_svg_file m an2cn g file_path) \<noteq> None"
    by (intro create_svg_file_fails) simp
next
  assume "y_annotation g = Some ''latin_letters'' \<and> 25 < snd (board_size g)"
  then have "snd (draw_y_annotations m an2cn g) = Some (IndexError ''string index out of range'')"
    by (simp add: y_annotations_fail)
  then show y: "snd (draw_annotations m an2cn g) \<noteq> None"
    by (simp add: draw_annotations_def snd_seq split: option.splits)
  then show "snd (create_svg_file m an2cn g file_path) \<noteq> None"
    by (rule create_svg_file_fails)
qed

theorem latin_letters_index_range_witness:
  "(0::int) \<le> 24
   \<and> get_annotation_string (\<lambda>n. Inr []) 24 (Some ''latin_letters'') = Inr ''Z''
   \<and> (0::int) \<le> 25 \<and> (25::int) \<le> 25
   \<and> get_annotation_string (\<lambda>n. Inr []) 25 (Some ''latin_letters'')
       = Inl (IndexError ''string index out of range'')
   \<and> x_annotation (default_goban\<lparr>board_size := (26, 26),
         x_annotation := Some ''latin_letters'', y_annotation := Some ''latin_letters''\<rparr>)
       = Some ''latin_letters''
   \<and> y_annotation (default_goban\<lparr>board_size := (26, 26),
         x_annotation := Some ''latin_letters'', y_annotation := Some ''latin_letters''\<rparr>)
       = Some ''latin_letters''
   \<and> (25::int) < fst (board_size (default_goban\<lparr>board_size := (26, 26),
         x_annotation := Some ''latin_letters'', y_annotation := Some ''latin_letters''\<rparr>))
   \<and> (25::int) < snd (board_size (default_goban\<lparr>board_size := (26, 26),
         x_annotation := Some ''latin_letters'', y_annotation := Some ''latin_letters''\<rparr>))
   \<and> snd (draw_annotations \<lparr>font_height = 8, text_x_bearing = (\<lambda>s. 0), text_width = (\<lambda>s. 5)\<rparr>
            (\<lambda>n. Inr [])
            (default_goban\<lparr>board_size := (26, 26),
               x_annotation := Some ''latin_letters'', y_annotation := Some ''latin_letters''\<rparr>))
       = Some (IndexError ''string index out of range'')
   \<and> snd (create_svg_file \<lparr>font_height = 8, text_x_bearing = (\<lambda>s. 0), text_width = (\<lambda>s. 5)\<rparr>
            (\<lambda>n. Inr [])
            (default_goban\<lparr>board_size := (26, 26),
               x_annotation := Some ''latin_letters'', y_annotation := Some ''latin_letters''\<rparr>)
            ''board.svg'')
       \<noteq> None"
  using latin_letters_index_range [of 25 "\<lambda>n. Inr []"
      "default_goban\<lparr>board_size := (26, 26),
         x_annotation := Some ''latin_letters'', y_annotation := Some ''latin_letters''\<rparr>"
      "\<lparr>font_height = 8, text_x_bearing = (\<lambda>s. 0), text_width = (\<lambda>s. 5)\<rparr>" "''board.svg''"]
    latin_letters_index_range [of 24 "\<lambda>n. Inr []"
      "default_goban\<lparr>board_size := (26, 26),
         x_annotation := Some ''latin_letters'', y_annotation := Some ''latin_letters''\<rparr>"
      "\<lparr>font_height = 8, text_x_bearing = (\<lambda>s. 0), text_width = (\<lambda>s. 5)\<rparr>" "''board.svg''"]
  by (simp add: latin_label)

end
